theory Spec2Isabelle
  imports Main
begin

section \<open>The authentication chain of \<open>lib/auth.js\<close>\<close>

text \<open>
  The module is written in callback style. A provider method that ends in
  \<open>cb(err, value)\<close> is modelled as a function returning the pair \<open>(err, value)\<close>;
  the walk over the provider list is a recursive function on that list. A JavaScript
  string is modelled by the list of its UTF-8 bytes (\<open>string\<close>), a \<open>Buffer\<close> by the
  list of its bytes (the type \<open>char\<close> is the 8-bit byte). Functions of Node's
  \<open>crypto\<close> and \<open>Buffer\<close>, of \<open>jju\<close> and the plugin loader are not part of the
  module: they are parameters (record \<open>env\<close>, and the list of loaded plugins). The
  clock \<open>Date.now()\<close> is the argument \<open>now_ms\<close>.
\<close>

subsection \<open>Errors and outcomes\<close>

text \<open>
  \<open>Error[403]('msg')\<close> of \<open>http-errors\<close> is \<open>HttpError 403 ''msg''\<close>. \<open>TypeError\<close> is
  what the runtime throws when a property of \<open>undefined\<close> is read; \<open>LibError\<close> is an
  error thrown by a library function (a syntax error of \<open>jju.parse\<close>, a failure of a
  decipher).
\<close>

datatype js_error =
    HttpError nat string
  | TypeError string
  | LibError string

fun message :: "js_error \<Rightarrow> string" where
  "message (HttpError st m) = m"
| "message (TypeError m) = m"
| "message (LibError m) = m"

fun status :: "js_error \<Rightarrow> nat option" where
  "status (HttpError st m) = Some st"
| "status (TypeError m) = None"
| "status (LibError m) = None"

text \<open>
  The outcome of a facade operation: an exception thrown out of the call, the callback
  invoked with an error, or the callback invoked with a result.
\<close>

datatype 'a outcome = Throws js_error | Cb_err js_error | Cb_ok 'a

subsection \<open>JavaScript coercions\<close>

text \<open>
  \<open>authenticate\<close> tests a provider's answer with \<open>groups != null && groups != false\<close>.
  For an array the loose comparison with \<open>false\<close> converts the array to the string of
  its elements joined by commas and that string to a number, which is compared with
  \<open>0\<close>. The following functions decide whether the number a string converts to is zero
  (\<open>StringToNumber\<close> of ECMAScript: optional white space, then nothing, a binary, octal
  or hexadecimal integer, or a signed decimal literal; a decimal literal of at most
  \<open>2\<^sup>-\<^sup>1\<^sup>0\<^sup>7\<^sup>5\<close> rounds to zero).
\<close>

definition white_space :: "string list" where
  "white_space =
    [[CHR 0x09], [CHR 0x0A], [CHR 0x0B], [CHR 0x0C], [CHR 0x0D], [CHR 0x20],
     [CHR 0xC2, CHR 0xA0], [CHR 0xE1, CHR 0x9A, CHR 0x80],
     [CHR 0xE2, CHR 0x80, CHR 0x80], [CHR 0xE2, CHR 0x80, CHR 0x81],
     [CHR 0xE2, CHR 0x80, CHR 0x82], [CHR 0xE2, CHR 0x80, CHR 0x83],
     [CHR 0xE2, CHR 0x80, CHR 0x84], [CHR 0xE2, CHR 0x80, CHR 0x85],
     [CHR 0xE2, CHR 0x80, CHR 0x86], [CHR 0xE2, CHR 0x80, CHR 0x87],
     [CHR 0xE2, CHR 0x80, CHR 0x88], [CHR 0xE2, CHR 0x80, CHR 0x89],
     [CHR 0xE2, CHR 0x80, CHR 0x8A], [CHR 0xE2, CHR 0x80, CHR 0xA8],
     [CHR 0xE2, CHR 0x80, CHR 0xA9], [CHR 0xE2, CHR 0x80, CHR 0xAF],
     [CHR 0xE2, CHR 0x81, CHR 0x9F], [CHR 0xE3, CHR 0x80, CHR 0x80],
     [CHR 0xEF, CHR 0xBB, CHR 0xBF]]"

fun match_len :: "string list \<Rightarrow> string \<Rightarrow> nat" where
  "match_len [] s = 0"
| "match_len (w # ws) s =
     (if w \<noteq> [] \<and> take (length w) s = w then length w else match_len ws s)"

function strip_start :: "string list \<Rightarrow> string \<Rightarrow> string" where
  "strip_start ws s =
     (if match_len ws s = 0 then s else strip_start ws (drop (match_len ws s) s))"
  by pat_completeness auto
termination
proof (relation "measure (\<lambda>(ws, s). length s)")
  show "wf (measure (\<lambda>(ws, s). length s))" by simp
next
  fix ws :: "string list" and s :: string
  assume nonzero: "match_len ws s \<noteq> 0"
  have "match_len ws s \<le> length s"
  proof (induction ws)
    case Nil
    then show ?case by simp
  next
    case (Cons w ws)
    have "take (length w) s = w \<Longrightarrow> length w \<le> length s"
      by (metis length_take min.cobounded1)
    with Cons show ?case by simp
  qed
  with nonzero show "((ws, drop (match_len ws s) s), (ws, s)) \<in> measure (\<lambda>(ws, s). length s)"
    by simp
qed

definition trim :: "string \<Rightarrow> string" where
  "trim s = rev (strip_start (map rev white_space) (rev (strip_start white_space s)))"

definition is_digit :: "char \<Rightarrow> bool" where
  "is_digit c = (48 \<le> (of_char c :: nat) \<and> (of_char c :: nat) \<le> 57)"

definition digits_val :: "string \<Rightarrow> int" where
  "digits_val ds = foldl (\<lambda>a c. 10 * a + ((of_char c :: int) - 48)) 0 ds"

definition radix_zero :: "string \<Rightarrow> string \<Rightarrow> bool" where
  \<comment> \<open>the digits after \<open>0x\<close>, \<open>0o\<close> or \<open>0b\<close>: a literal of that radix whose value is zero\<close>
  "radix_zero allowed ds =
     (ds \<noteq> [] \<and> list_all (\<lambda>c. c \<in> set allowed) ds \<and> list_all (\<lambda>c. c = CHR ''0'') ds)"

definition exponent_of :: "string \<Rightarrow> int option" where
  \<comment> \<open>the text after the mantissa: nothing, or \<open>e\<close>/\<open>E\<close>, an optional sign and digits\<close>
  "exponent_of r =
     (case r of
        [] \<Rightarrow> Some 0
      | c # r' \<Rightarrow>
          if c = CHR ''e'' \<or> c = CHR ''E'' then
            (case r' of
               [] \<Rightarrow> None
             | d # r'' \<Rightarrow>
                 let neg = (d = CHR ''-'');
                     ds = (if d = CHR ''-'' \<or> d = CHR ''+'' then r'' else r')
                 in if ds \<noteq> [] \<and> list_all is_digit ds
                    then Some (if neg then - digits_val ds else digits_val ds)
                    else None)
          else None)"

definition decimal_zero :: "string \<Rightarrow> bool" where
  "decimal_zero s =
     (let r = (case s of [] \<Rightarrow> [] | c # cs \<Rightarrow> if c = CHR ''+'' \<or> c = CHR ''-'' then cs else s);
          ip = takeWhile is_digit r;
          r1 = dropWhile is_digit r;
          fp = (case r1 of [] \<Rightarrow> [] | c # cs \<Rightarrow> if c = CHR ''.'' then takeWhile is_digit cs else []);
          r2 = (case r1 of [] \<Rightarrow> [] | c # cs \<Rightarrow> if c = CHR ''.'' then dropWhile is_digit cs else r1)
      in if ip = [] \<and> fp = [] then False
         else (case exponent_of r2 of
                 None \<Rightarrow> False
               | Some e \<Rightarrow>
                   let m = digits_val (ip @ fp); e' = e - int (length fp)
                   in m = 0 \<or> (e' < 0 \<and> m * 2 ^ 1075 \<le> 10 ^ nat (- e'))))"

definition string_to_number_is_zero :: "string \<Rightarrow> bool" where
  "string_to_number_is_zero s =
     (let t = trim s
      in if t = [] then True
         else if take 2 t = ''0x'' \<or> take 2 t = ''0X'' then radix_zero ''0123456789abcdefABCDEF'' (drop 2 t)
         else if take 2 t = ''0o'' \<or> take 2 t = ''0O'' then radix_zero ''01234567'' (drop 2 t)
         else if take 2 t = ''0b'' \<or> take 2 t = ''0B'' then radix_zero ''01'' (drop 2 t)
         else decimal_zero t)"

fun join_comma :: "string list \<Rightarrow> string" where
  "join_comma [] = []"
| "join_comma [x] = x"
| "join_comma (x # y # ys) = x @ '','' @ join_comma (y # ys)"

text \<open>
  What a provider's \<open>authenticate\<close> hands to its callback as \<open>groups\<close>: nothing, \<open>null\<close>,
  \<open>false\<close> or an array of group names.
\<close>

datatype groups_val = GUndefined | GNull | GFalse | GArray "string list"

fun truthy_groups :: "groups_val \<Rightarrow> bool" where
  "truthy_groups (GArray gs) = True"
| "truthy_groups _ = False"

fun loose_eq_null :: "groups_val \<Rightarrow> bool" where
  "loose_eq_null GUndefined = True"
| "loose_eq_null GNull = True"
| "loose_eq_null _ = False"

fun loose_eq_false :: "groups_val \<Rightarrow> bool" where
  "loose_eq_false GUndefined = False"
| "loose_eq_false GNull = False"
| "loose_eq_false GFalse = True"
| "loose_eq_false (GArray gs) = string_to_number_is_zero (join_comma gs)"

fun truthy_string :: "string option \<Rightarrow> bool" where
  "truthy_string None = False"
| "truthy_string (Some s) = (s \<noteq> [])"

fun indexOf :: "string \<Rightarrow> char \<Rightarrow> int" where
  "indexOf [] c = - 1"
| "indexOf (x # xs) c = (if x = c then 0 else (let i = indexOf xs c in if i < 0 then - 1 else i + 1))"

fun split :: "string \<Rightarrow> char \<Rightarrow> string list" where
  "split [] sep = [[]]"
| "split (c # cs) sep =
     (if c = sep then [] # split cs sep
      else (case split cs sep of [] \<Rightarrow> [[c]] | w # ws \<Rightarrow> (c # w) # ws))"

subsection \<open>Principals, packages and providers\<close>

text \<open>
  A principal as the two builders make it (\<open>name\<close>, \<open>groups\<close>, \<open>real_groups\<close>), with the
  two fields a middleware may add (\<open>error\<close>, \<open>token\<close>). \<open>real_groups\<close> is whatever the
  provider or the token gave, so it may be \<open>undefined\<close>.
\<close>

record user =
  name :: "string option"
  groups :: "string list"
  real_groups :: groups_val
  error :: "string option"
  token :: "string option"

text \<open>
  What \<open>config.get_package_spec\<close> returns (interface of the configuration, which is
  not part of the module), and the descriptor \<open>Object.assign({name: package_name}, spec)\<close>.
\<close>

record package_spec =
  access :: "string list"
  publish :: "string list"

record package = package_spec +
  pkg_name :: string

record user_entry =
  password :: string

record config =
  secret :: string
  users :: "(string \<rightharpoonup> user_entry) option"
  get_package_spec :: "string \<Rightarrow> package_spec"

text \<open>
  A provider implements any subset of the five method names the module looks at.
  A method returns what it passes to its callback: \<open>(err, groups)\<close> or \<open>(err, ok)\<close>,
  \<open>ok\<close> being the truth value of the second argument.
\<close>

record plugin =
  p_authenticate :: "(string \<Rightarrow> string \<Rightarrow> js_error option \<times> groups_val) option"
  p_adduser :: "(string \<Rightarrow> string \<Rightarrow> js_error option \<times> bool) option"
  p_add_user :: "(string \<Rightarrow> string \<Rightarrow> js_error option \<times> bool) option"
  p_allow_access :: "(user \<Rightarrow> package \<Rightarrow> js_error option \<times> bool) option"
  p_allow_publish :: "(user \<Rightarrow> package \<Rightarrow> js_error option \<times> bool) option"

text \<open>
  The object a token carries: \<open>{u: name, g: groups, t: seconds}\<close>. A field that is
  \<open>undefined\<close> is left out of the serialised text.
\<close>

record payload =
  tok_u :: "string option"
  tok_g :: groups_val
  tok_t :: int

text \<open>
  The library functions the module calls: hashes and ciphers of \<open>crypto\<close>, the
  conversions of \<open>Buffer\<close>, \<open>jju.stringify\<close> and \<open>jju.parse\<close>. The first argument of
  the keyed functions is the secret. A function that may throw returns a sum;
  \<open>decipher_update\<close> stands for \<open>createDecipher\<close> followed by \<open>update\<close>.
\<close>

type_synonym buffer = "char list"

record env =
  sha1_hex :: "string \<Rightarrow> string"
  hmac_sha256 :: "string \<Rightarrow> buffer \<Rightarrow> buffer"
  sha512_hex :: "buffer \<Rightarrow> string"
  base64_encode :: "buffer \<Rightarrow> string"
  base64_decode :: "string \<Rightarrow> buffer"
  utf8_encode :: "string \<Rightarrow> buffer"
  utf8_decode :: "buffer \<Rightarrow> string"
  cipher_update :: "string \<Rightarrow> buffer \<Rightarrow> buffer"
  cipher_final :: "string \<Rightarrow> buffer \<Rightarrow> buffer"
  decipher_update :: "string \<Rightarrow> buffer \<Rightarrow> js_error + buffer"
  decipher_final :: "string \<Rightarrow> buffer \<Rightarrow> js_error + buffer"
  jju_stringify :: "payload \<Rightarrow> string"
  jju_parse :: "string \<Rightarrow> js_error + payload"

subsection \<open>The principal builders\<close>

definition buildAnonymousUser :: user where
  "buildAnonymousUser =
     \<lparr> name = None,
       groups = [''$all'', ''$anonymous'', ''@all'', ''@anonymous'', ''all'', ''undefined'', ''anonymous''],
       real_groups = GArray [],
       error = None,
       token = None \<rparr>"

definition authenticatedUser :: "string option \<Rightarrow> groups_val \<Rightarrow> user" where
  "authenticatedUser nm grps =
     (let groups' = (case grps of GArray gs \<Rightarrow> gs | _ \<Rightarrow> [])
                      @ [''$all'', ''$authenticated'', ''@all'', ''@authenticated'', ''all'']
      in \<lparr> name = nm, groups = groups', real_groups = grps, error = None, token = None \<rparr>)"

subsection \<open>The two built-in providers and the constructor\<close>

text \<open>
  \<open>config.users\<close> is a plain object, and \<open>config.users[user]\<close> reads a property of
  it: the value stored under the key when the object has the key itself, and otherwise
  what the object inherits from \<open>Object.prototype\<close> under that name, which is a
  function (for \<open>__proto__\<close> the prototype itself) and so neither \<open>null\<close> nor falsy.
\<close>

definition object_prototype_names :: "string list" where
  "object_prototype_names =
     [''constructor'', ''__defineGetter__'', ''__defineSetter__'', ''hasOwnProperty'',
      ''__lookupGetter__'', ''__lookupSetter__'', ''isPrototypeOf'', ''propertyIsEnumerable'',
      ''toString'', ''valueOf'', ''__proto__'', ''toLocaleString'']"

datatype 'a js_property = Own 'a | Inherited | Missing

definition get_property :: "(string \<rightharpoonup> 'a) \<Rightarrow> string \<Rightarrow> 'a js_property" where
  "get_property obj key =
     (case obj key of
        Some v \<Rightarrow> Own v
      | None \<Rightarrow> if key \<in> set object_prototype_names then Inherited else Missing)"

definition static_authenticate ::
  "env \<Rightarrow> config \<Rightarrow> string \<Rightarrow> string \<Rightarrow> js_error option \<times> groups_val" where
  "static_authenticate e cfg usr pw =
     (case users cfg of
        None \<Rightarrow> (None, GUndefined)
      | Some tbl \<Rightarrow>
          (case get_property tbl usr of
             Missing \<Rightarrow> (None, GUndefined)
           | Inherited \<Rightarrow> (None, GUndefined)
               \<comment> \<open>the \<open>password\<close> of an inherited function is \<open>undefined\<close>, which no digest equals\<close>
           | Own entry \<Rightarrow>
               if sha1_hex e pw = password entry then (None, GArray [usr])
               else (None, GUndefined)))"

definition static_adduser :: "config \<Rightarrow> string \<Rightarrow> string \<Rightarrow> js_error option \<times> bool" where
  "static_adduser cfg usr pw =
     (case users cfg of
        None \<Rightarrow> (None, False)
      | Some tbl \<Rightarrow>
          (case get_property tbl usr of
             Missing \<Rightarrow> (None, False)
           | Inherited \<Rightarrow> (Some (HttpError 403 ''this user already exists''), False)
           | Own entry \<Rightarrow> (Some (HttpError 403 ''this user already exists''), False)))"

definition static_plugin :: "env \<Rightarrow> config \<Rightarrow> plugin" where
  "static_plugin e cfg =
     \<lparr> p_authenticate = Some (static_authenticate e cfg),
       p_adduser = Some (static_adduser cfg),
       p_add_user = None,
       p_allow_access = None,
       p_allow_publish = None \<rparr>"

datatype action = Access | Publish

fun action_name :: "action \<Rightarrow> string" where
  "action_name Access = ''access''"
| "action_name Publish = ''publish''"

fun acl :: "action \<Rightarrow> package \<Rightarrow> string list" where
  "acl Access pkg = access pkg"
| "acl Publish pkg = publish pkg"

definition allow_action :: "action \<Rightarrow> user \<Rightarrow> package \<Rightarrow> js_error option \<times> bool" where
  "allow_action act usr pkg =
     (let ok = foldl (\<lambda>prev curr. if curr \<in> set (groups usr) then True else prev) False (acl act pkg)
      in if ok then (None, True)
         else if truthy_string (name usr) then
           (Some (HttpError 403 (''user '' @ the (name usr) @ '' is not allowed to '' @ action_name act
                                  @ '' package '' @ pkg_name pkg)), False)
         else
           (Some (HttpError 403 (''unregistered users are not allowed to '' @ action_name act
                                  @ '' package '' @ pkg_name pkg)), False))"

definition deny_all_plugin :: plugin where
  "deny_all_plugin =
     \<lparr> p_authenticate = Some (\<lambda>usr pw. (Some (HttpError 403 ''bad username/password, access denied''), GUndefined)),
       p_adduser = None,
       p_add_user = Some (\<lambda>usr pw. (Some (HttpError 409 ''registration is disabled''), False)),
       p_allow_access = Some (allow_action Access),
       p_allow_publish = Some (allow_action Publish) \<rparr>"

record auth =
  a_config :: config
  a_secret :: string
  plugins :: "plugin list"

text \<open>
  \<open>Auth(config)\<close>: the plugins \<open>load_plugins\<close> returns (a parameter), with the
  static-credential provider put in front and the deny-all provider at the end.
\<close>

definition Auth :: "env \<Rightarrow> config \<Rightarrow> plugin list \<Rightarrow> auth" where
  "Auth e cfg loaded =
     \<lparr> a_config = cfg,
       a_secret = secret cfg,
       plugins = static_plugin e cfg # loaded @ [deny_all_plugin] \<rparr>"

subsection \<open>The four walks over the provider list\<close>

text \<open>
  Each operation copies the list and calls \<open>next\<close>, which takes the first provider off
  the list. Taking from the empty list gives \<open>undefined\<close>, and reading its method
  throws.
\<close>

definition groups_affirmative :: "groups_val \<Rightarrow> bool" where
  "groups_affirmative grps = (\<not> loose_eq_null grps \<and> \<not> loose_eq_false grps)"

fun authenticate_next :: "plugin list \<Rightarrow> string \<Rightarrow> string \<Rightarrow> user outcome" where
  "authenticate_next [] usr pw = Throws (TypeError ''Cannot read property authenticate of undefined'')"
| "authenticate_next (p # ps) usr pw =
     (case p_authenticate p of
        None \<Rightarrow> authenticate_next ps usr pw
      | Some f \<Rightarrow>
          (case f usr pw of
             (Some err, grps) \<Rightarrow> Cb_err err
           | (None, grps) \<Rightarrow>
               if groups_affirmative grps then Cb_ok (authenticatedUser (Some usr) grps)
               else authenticate_next ps usr pw))"

definition authenticate :: "auth \<Rightarrow> string \<Rightarrow> string \<Rightarrow> user outcome" where
  "authenticate self usr pw = authenticate_next (plugins self) usr pw"



fun allow_access_next :: "plugin list \<Rightarrow> user \<Rightarrow> package \<Rightarrow> bool outcome" where
  "allow_access_next [] usr pkg = Throws (TypeError ''Cannot read property allow_access of undefined'')"
| "allow_access_next (p # ps) usr pkg =
     (case p_allow_access p of
        None \<Rightarrow> allow_access_next ps usr pkg
      | Some f \<Rightarrow>
          (case f usr pkg of
             (Some err, ok) \<Rightarrow> Cb_err err
           | (None, ok) \<Rightarrow> if ok then Cb_ok ok else allow_access_next ps usr pkg))"

definition make_package :: "config \<Rightarrow> string \<Rightarrow> package" where
  "make_package cfg package_name =
     (let spec = get_package_spec cfg package_name
      in \<lparr> access = access spec, publish = publish spec, pkg_name = package_name \<rparr>)"

definition allow_access :: "auth \<Rightarrow> string \<Rightarrow> user \<Rightarrow> bool outcome" where
  "allow_access self package_name usr =
     allow_access_next (plugins self) usr (make_package (a_config self) package_name)"

fun allow_publish_next :: "plugin list \<Rightarrow> user \<Rightarrow> package \<Rightarrow> bool outcome" where
  "allow_publish_next [] usr pkg = Throws (TypeError ''Cannot read property allow_publish of undefined'')"
| "allow_publish_next (p # ps) usr pkg =
     (case p_allow_publish p of
        None \<Rightarrow> allow_publish_next ps usr pkg
      | Some f \<Rightarrow>
          (case f usr pkg of
             (Some err, ok) \<Rightarrow> Cb_err err
           | (None, ok) \<Rightarrow> if ok then Cb_ok ok else allow_publish_next ps usr pkg))"

definition allow_publish :: "auth \<Rightarrow> string \<Rightarrow> user \<Rightarrow> bool outcome" where
  "allow_publish self package_name usr =
     allow_publish_next (plugins self) usr (make_package (a_config self) package_name)"

subsection \<open>The signed token\<close>

text \<open>
  \<open>~~(Date.now()/1000)\<close>: the clock in milliseconds, divided by 1000, cut to an integer
  towards zero and wrapped to 32 bits by the double bitwise negation.
\<close>

definition to_int32 :: "int \<Rightarrow> int" where
  "to_int32 x = (x + 2 ^ 31) mod 2 ^ 32 - 2 ^ 31"

definition now_seconds :: "int \<Rightarrow> int" where
  "now_seconds now_ms =
     to_int32 (if now_ms < 0 then - ((- now_ms) div 1000) else now_ms div 1000)"

definition token_payload :: "int \<Rightarrow> user \<Rightarrow> payload" where
  "token_payload now_ms usr =
     \<lparr> tok_u = name usr,
       tok_g = (if truthy_groups (real_groups usr)
                   \<and> (case real_groups usr of GArray gs \<Rightarrow> length gs \<noteq> 0 | _ \<Rightarrow> False)
                then real_groups usr else GUndefined),
       tok_t = now_seconds now_ms \<rparr>"

definition issue_token :: "env \<Rightarrow> auth \<Rightarrow> int \<Rightarrow> user \<Rightarrow> string" where
  "issue_token e self now_ms usr =
     (let data = utf8_encode e (jju_stringify e (token_payload now_ms usr));
          mac = hmac_sha256 e (a_secret self) data
      in base64_encode e (data @ mac))"

definition expire_or_default :: "int option \<Rightarrow> int" where
  \<comment> \<open>\<open>expire_time || 24*60*60\<close>\<close>
  "expire_or_default expire_time =
     (case expire_time of None \<Rightarrow> 24 * 60 * 60 | Some x \<Rightarrow> if x = 0 then 24 * 60 * 60 else x)"

definition decode_token :: "env \<Rightarrow> auth \<Rightarrow> int \<Rightarrow> string \<Rightarrow> int option \<Rightarrow> js_error + payload" where
  "decode_token e self now_ms str expire_time =
     (let buf = base64_decode e str
      in if length buf \<le> 32 then Inl (HttpError 401 ''invalid token'')
         else
           let data = take (length buf - 32) buf;
               their_mac = drop (length buf - 32) buf;
               good_mac = hmac_sha256 e (a_secret self) data
           in if sha512_hex e their_mac \<noteq> sha512_hex e good_mac
              then Inl (HttpError 401 ''bad signature'')
              else
                (case jju_parse e (utf8_decode e data) of
                   Inl err \<Rightarrow> Inl err
                 | Inr parsed \<Rightarrow>
                     if \<bar>tok_t parsed - now_seconds now_ms\<bar> > expire_or_default expire_time
                     then Inl (HttpError 401 ''token expired'')
                     else Inr parsed))"

subsection \<open>The cipher\<close>

definition aes_encrypt :: "env \<Rightarrow> auth \<Rightarrow> buffer \<Rightarrow> buffer" where
  "aes_encrypt e self buf =
     (let b1 = cipher_update e (a_secret self) buf;
          b2 = cipher_final e (a_secret self) buf
      in b1 @ b2)"

text \<open>\<open>try { body } catch(_) { handler }\<close>\<close>

definition try_catch :: "js_error + 'a \<Rightarrow> (js_error \<Rightarrow> js_error + 'a) \<Rightarrow> js_error + 'a" where
  "try_catch body handler = (case body of Inl err \<Rightarrow> handler err | Inr v \<Rightarrow> Inr v)"

definition aes_decrypt :: "env \<Rightarrow> auth \<Rightarrow> buffer \<Rightarrow> js_error + buffer" where
  "aes_decrypt e self buf =
     try_catch
       (case decipher_update e (a_secret self) buf of
          Inl err \<Rightarrow> Inl err
        | Inr b1 \<Rightarrow>
            (case decipher_final e (a_secret self) buf of
               Inl err \<Rightarrow> Inl err
             | Inr b2 \<Rightarrow> Inr (b1 @ b2)))
       (\<lambda>_. Inr [])"

subsection \<open>The three middlewares\<close>

text \<open>
  A middleware reads the request, changes its \<open>remote_user\<close> and calls the
  continuation \<open>_next\<close>, with an error or without. Its result is the request as the
  continuation finds it and the argument the continuation gets.
\<close>

record request =
  remote_user :: "user option"
  authorization :: "string option"
  cookie_token :: "string option"
  paused :: bool

datatype mw_outcome = Continue request "js_error option" | Mw_throws js_error

definition has_named_user :: "request \<Rightarrow> bool" where
  \<comment> \<open>\<open>req.remote_user != null && req.remote_user.name !== undefined\<close>\<close>
  "has_named_user req = (case remote_user req of None \<Rightarrow> False | Some usr \<Rightarrow> name usr \<noteq> None)"

definition basic_next :: "request \<Rightarrow> js_error option \<Rightarrow> mw_outcome" where
  "basic_next req err =
     (let req1 = req\<lparr>paused := False\<rparr>
      in case err of
           None \<Rightarrow> Continue req1 None
         | Some er \<Rightarrow>
             (case remote_user req1 of
                None \<Rightarrow> Mw_throws (TypeError ''Cannot set property error of undefined'')
              | Some usr \<Rightarrow>
                  Continue (req1\<lparr>remote_user := Some (usr\<lparr>error := Some (message er)\<rparr>)\<rparr>) None))"

definition basic_middleware :: "env \<Rightarrow> auth \<Rightarrow> request \<Rightarrow> mw_outcome" where
  "basic_middleware e self req0 =
     (let req = req0\<lparr>paused := True\<rparr>
      in if has_named_user req then basic_next req None
         else
           let req = req\<lparr>remote_user := Some buildAnonymousUser\<rparr>
           in case authorization req of
                None \<Rightarrow> basic_next req None
              | Some hdr \<Rightarrow>
                  let parts = split hdr CHR '' ''
                  in if length parts \<noteq> 2
                     then basic_next req (Some (HttpError 400 ''bad authorization header''))
                     else
                       let scheme = parts ! 0
                       in case
                            (if scheme = ''Basic''
                             then Inr (Some (utf8_decode e (base64_decode e (parts ! 1))))
                             else if scheme = ''Bearer''
                             then (case aes_decrypt e self (base64_decode e (parts ! 1)) of
                                     Inl err \<Rightarrow> Inl err
                                   | Inr plain \<Rightarrow>
                                       let credentials = utf8_decode e plain
                                       in if credentials = [] then Inr None else Inr (Some credentials))
                             else Inr None)
                          of
                            Inl err \<Rightarrow> Mw_throws err
                          | Inr None \<Rightarrow> basic_next req None
                          | Inr (Some credentials) \<Rightarrow>
                              let index = indexOf credentials CHR '':''
                              in if index < 0 then basic_next req None
                                 else
                                   let usr = take (nat index) credentials;
                                       pass = drop (nat (index + 1)) credentials
                                   in case authenticate self usr pass of
                                        Throws err \<Rightarrow> Mw_throws err
                                      | Cb_ok usr' \<Rightarrow>
                                          basic_next (req\<lparr>remote_user := Some usr'\<rparr>) None
                                      | Cb_err err \<Rightarrow>
                                          basic_next (req\<lparr>remote_user := Some buildAnonymousUser\<rparr>) (Some err))"

definition bearer_next :: "request \<Rightarrow> js_error option \<Rightarrow> mw_outcome" where
  "bearer_next req err = Continue (req\<lparr>paused := False\<rparr>) err"

definition bearer_middleware :: "env \<Rightarrow> auth \<Rightarrow> int \<Rightarrow> request \<Rightarrow> mw_outcome" where
  "bearer_middleware e self now_ms req0 =
     (let req = req0\<lparr>paused := True\<rparr>
      in if has_named_user req then bearer_next req None
         else
           let req = req\<lparr>remote_user := Some buildAnonymousUser\<rparr>
           in case authorization req of
                None \<Rightarrow> bearer_next req None
              | Some hdr \<Rightarrow>
                  let parts = split hdr CHR '' ''
                  in if length parts \<noteq> 2
                     then bearer_next req (Some (HttpError 400 ''bad authorization header''))
                     else
                       let scheme = parts ! 0;
                           tok = parts ! 1
                       in if scheme \<noteq> ''Bearer'' then bearer_next req None
                          else
                            (case decode_token e self now_ms tok None of
                               Inl err \<Rightarrow> bearer_next req (Some err)
                             | Inr decoded \<Rightarrow>
                                 bearer_next
                                   (req\<lparr>remote_user :=
                                          Some ((authenticatedUser (tok_u decoded) (tok_g decoded))
                                                  \<lparr>token := Some tok\<rparr>)\<rparr>)
                                   None))"

definition cookie_next :: "request \<Rightarrow> js_error option \<Rightarrow> mw_outcome" where
  "cookie_next req err = Continue (req\<lparr>paused := False\<rparr>) None"

definition cookie_middleware :: "env \<Rightarrow> auth \<Rightarrow> request \<Rightarrow> mw_outcome" where
  "cookie_middleware e self req0 =
     (let req = req0\<lparr>paused := True\<rparr>
      in if has_named_user req then cookie_next req None
         else
           let req = req\<lparr>remote_user := Some buildAnonymousUser\<rparr>
           in case cookie_token req of
                None \<Rightarrow> cookie_next req None
              | Some tok \<Rightarrow>
                  (case aes_decrypt e self (base64_decode e tok) of
                     Inl err \<Rightarrow> Mw_throws err
                   | Inr plain \<Rightarrow>
                       let credentials = utf8_decode e plain
                       in if credentials = [] then cookie_next req None
                          else
                            let index = indexOf credentials CHR '':''
                            in if index < 0 then cookie_next req None
                               else
                                 let usr = take (nat index) credentials;
                                     pass = drop (nat (index + 1)) credentials
                                 in case authenticate self usr pass of
                                      Throws err \<Rightarrow> Mw_throws err
                                    | Cb_ok usr' \<Rightarrow>
                                        cookie_next (req\<lparr>remote_user := Some usr'\<rparr>) None
                                    | Cb_err err \<Rightarrow>
                                        cookie_next (req\<lparr>remote_user := Some buildAnonymousUser\<rparr>) (Some err)))"

subsection \<open>Sample environment\<close>

text \<open>
  Stand-ins for the library functions, for evaluating the module on concrete inputs:
  a tagging "hash", a 32-byte "MAC" cut from key and data, identity encodings, a
  "cipher" that prefixes one byte, a serialiser and a parser that recognises the
  serialisations of a fixed list of payloads.
\<close>

function show_nat :: "nat \<Rightarrow> string" where
  "show_nat n = (if n < 10 then [''0123456789'' ! n] else show_nat (n div 10) @ [''0123456789'' ! (n mod 10)])"
  by pat_completeness auto
termination
  by (relation "measure (\<lambda>n. n)") auto

definition sample_stringify :: "payload \<Rightarrow> string" where
  "sample_stringify pl =
     ''{''
     @ (case tok_u pl of None \<Rightarrow> [] | Some n \<Rightarrow> ''u='' @ n @ '';'')
     @ (case tok_g pl of
          GUndefined \<Rightarrow> []
        | GNull \<Rightarrow> ''g=null;''
        | GFalse \<Rightarrow> ''g=false;''
        | GArray gs \<Rightarrow> ''g=['' @ join_comma gs @ ''];'')
     @ ''t='' @ (if tok_t pl < 0 then ''-'' else []) @ show_nat (nat \<bar>tok_t pl\<bar>) @ ''}''"

definition sample_payloads :: "payload list" where
  "sample_payloads =
     [\<lparr> tok_u = Some ''carol'', tok_g = GArray [''dev''], tok_t = 1000 \<rparr>,
      \<lparr> tok_u = Some ''carol'', tok_g = GArray [], tok_t = 1000 \<rparr>,
      \<lparr> tok_u = Some ''carol'', tok_g = GUndefined, tok_t = 1000 \<rparr>]"

definition sample_parse :: "string \<Rightarrow> js_error + payload" where
  "sample_parse txt =
     (case filter (\<lambda>pl. sample_stringify pl = txt) sample_payloads of
        [] \<Rightarrow> Inl (LibError ''SyntaxError'')
      | pl # _ \<Rightarrow> Inr pl)"

definition sample_env :: env where
  "sample_env =
     \<lparr> sha1_hex = (\<lambda>pw. ''sha1('' @ pw @ '')''),
       hmac_sha256 = (\<lambda>key data. take 32 (key @ data @ replicate 32 CHR ''#'')),
       sha512_hex = (\<lambda>buf. buf),
       base64_encode = (\<lambda>buf. buf),
       base64_decode = (\<lambda>str. str),
       utf8_encode = (\<lambda>str. str),
       utf8_decode = (\<lambda>buf. buf),
       cipher_update = (\<lambda>key buf. CHR ''!'' # buf),
       cipher_final = (\<lambda>key buf. []),
       decipher_update = (\<lambda>key buf. Inr (drop 1 buf)),
       decipher_final = (\<lambda>key buf. if take 1 buf = ''!'' then Inr [] else Inl (LibError ''bad decrypt'')),
       jju_stringify = sample_stringify,
       jju_parse = sample_parse \<rparr>"

definition sample_config :: config where
  "sample_config =
     \<lparr> secret = ''s3cret'',
       users = Some [''alice'' \<mapsto> \<lparr> password = ''sha1(pw)'' \<rparr>],
       get_package_spec = (\<lambda>package_name.
          if package_name = ''pkgX'' then \<lparr> access = [''dev''], publish = [''admin''] \<rparr>
          else \<lparr> access = [''$all''], publish = [''$authenticated''] \<rparr>) \<rparr>"

definition sample_auth :: auth where
  "sample_auth = Auth sample_env sample_config []"

definition sample_request :: request where
  "sample_request =
     \<lparr> remote_user = None, authorization = None, cookie_token = None, paused = False \<rparr>"

text \<open>A token issued at second 1000 for \<open>carol\<close> with the group \<open>dev\<close>.\<close>

definition carol_token :: string where
  "carol_token =
     issue_token sample_env sample_auth 1000000 (authenticatedUser (Some ''carol'') (GArray [''dev'']))"

text \<open>Two external providers: one grants every access, one registers every user.\<close>

definition grant_all_plugin :: plugin where
  "grant_all_plugin =
     \<lparr> p_authenticate = None,
       p_adduser = None,
       p_add_user = None,
       p_allow_access = Some (\<lambda>usr pkg. (None, True)),
       p_allow_publish = Some (\<lambda>usr pkg. (None, True)) \<rparr>"


subsection \<open>What a provider answers\<close>

text \<open>
  The three answers the walks distinguish, read off the tests each walk makes on what
  the provider passes to its callback: an error, an affirmative result, or no verdict (the
  provider lacks the method, or its result is empty).
\<close>

datatype 'a verdict = No_verdict | Stop_error js_error | Stop_ok 'a



definition allow_access_verdict :: "user \<Rightarrow> package \<Rightarrow> plugin \<Rightarrow> bool verdict" where
  "allow_access_verdict usr pkg p =
     (case p_allow_access p of
        None \<Rightarrow> No_verdict
      | Some f \<Rightarrow>
          (case f usr pkg of
             (Some err, ok) \<Rightarrow> Stop_error err
           | (None, ok) \<Rightarrow> if ok then Stop_ok ok else No_verdict))"

definition allow_publish_verdict :: "user \<Rightarrow> package \<Rightarrow> plugin \<Rightarrow> bool verdict" where
  "allow_publish_verdict usr pkg p =
     (case p_allow_publish p of
        None \<Rightarrow> No_verdict
      | Some f \<Rightarrow>
          (case f usr pkg of
             (Some err, ok) \<Rightarrow> Stop_error err
           | (None, ok) \<Rightarrow> if ok then Stop_ok ok else No_verdict))"

section \<open>Properties\<close>

subsection \<open>The static-credential provider\<close>

lemma static_adduser_cases:
  "static_adduser cfg usr pw =
     (if (case users cfg of
            None \<Rightarrow> False
          | Some tbl \<Rightarrow> tbl usr \<noteq> None \<or> usr \<in> set object_prototype_names)
      then (Some (HttpError 403 ''this user already exists''), False)
      else (None, False))"
  by (simp add: static_adduser_def get_property_def split: option.splits)

text \<open>
  A name that every object inherits is answered like a user of the table, although the
  table has no entry for it.
\<close>

lemma static_adduser_inherited_name:
  "(case users sample_config of None \<Rightarrow> False | Some tbl \<Rightarrow> tbl ''toString'' = None)
   \<and> static_adduser sample_config ''toString'' ''pw''
       = (Some (HttpError 403 ''this user already exists''), False)"
  by (simp add: static_adduser_cases sample_config_def object_prototype_names_def)

text \<open>
  C4, as the code has it: the first provider of every chain offers \<open>adduser\<close>, which
  fails with \<open>this user already exists\<close> and status 403 when the user table has an
  entry for the name, and calls back with nothing when there is no table, or when the
  table has no entry for the name and the name is not one that every object inherits.
\<close>

theorem static_adduser_existing_user:
  "p_adduser (hd (plugins (Auth e cfg loaded))) = Some (static_adduser cfg)
   \<and> (users cfg = Some tbl \<and> tbl usr = Some entry \<longrightarrow>
        static_adduser cfg usr pw = (Some (HttpError 403 ''this user already exists''), False))
   \<and> (users cfg = None \<longrightarrow> static_adduser cfg usr pw = (None, False))
   \<and> (users cfg = Some tbl \<and> tbl usr = None \<and> usr \<notin> set object_prototype_names \<longrightarrow>
        static_adduser cfg usr pw = (None, False))"
  by (simp add: Auth_def static_plugin_def static_adduser_cases)

theorem static_adduser_existing_user_witness:
  "static_adduser sample_config ''alice'' ''pw'' = (Some (HttpError 403 ''this user already exists''), False)
   \<and> static_adduser sample_config ''bob'' ''pw'' = (None, False)
   \<and> static_adduser (sample_config\<lparr>users := None\<rparr>) ''alice'' ''pw'' = (None, False)"
proof -
  let ?tbl = "[''alice'' \<mapsto> \<lparr> password = ''sha1(pw)'' \<rparr>]"
  have t: "users sample_config = Some ?tbl"
    by (simp add: sample_config_def)
  have a: "?tbl ''alice'' = Some \<lparr> password = ''sha1(pw)'' \<rparr>" and b: "?tbl ''bob'' = None"
    by simp_all
  have n: "''bob'' \<notin> set object_prototype_names"
    by (simp add: object_prototype_names_def)
  have u: "users (sample_config\<lparr>users := None\<rparr>) = None"
    by simp
  show ?thesis
    using t a b n u
      static_adduser_existing_user [where cfg = sample_config and tbl = ?tbl and usr = "''alice''"
        and entry = "\<lparr> password = ''sha1(pw)'' \<rparr>" and pw = "''pw''"]
      static_adduser_existing_user [where cfg = sample_config and tbl = ?tbl and usr = "''bob''"
        and pw = "''pw''"]
      static_adduser_existing_user [where cfg = "sample_config\<lparr>users := None\<rparr>" and usr = "''alice''"
        and pw = "''pw''"]
    by simp
qed

text \<open>
  C4 as stated fails: for a user that is in the table the error's status is 403, not
  409.
\<close>

theorem static_adduser_conflict_counterexample:
  "(case users sample_config of None \<Rightarrow> False | Some tbl \<Rightarrow> tbl ''alice'' \<noteq> None) \<and>
   fst (static_adduser sample_config ''alice'' ''pw'') = Some (HttpError 403 ''this user already exists'') \<and>
   status (HttpError 403 ''this user already exists'') \<noteq> Some 409"
  by (simp add: static_adduser_cases sample_config_def)

subsection \<open>The Bearer middleware\<close>

lemma has_named_user_paused [simp]: "has_named_user (req\<lparr>paused := b\<rparr>) = has_named_user req"
  by (simp add: has_named_user_def)

text \<open>The first two ways in which \<open>decode_token\<close> fails; the third is the expiry.\<close>

lemma decode_token_too_short:
  "length (base64_decode e str) \<le> 32 \<Longrightarrow>
     decode_token e self now_ms str expire_time = Inl (HttpError 401 ''invalid token'')"
  by (simp add: decode_token_def)

lemma decode_token_bad_signature:
  assumes "buf = base64_decode e str"
    and "32 < length buf"
    and "sha512_hex e (drop (length buf - 32) buf)
           \<noteq> sha512_hex e (hmac_sha256 e (a_secret self) (take (length buf - 32) buf))"
  shows "decode_token e self now_ms str expire_time = Inl (HttpError 401 ''bad signature'')"
  using assms by (simp add: decode_token_def Let_def)

text \<open>
  C7: a request that carries no named principal yet, whose \<open>Authorization\<close> header
  splits into \<open>Bearer\<close> and a token that \<open>decode_token\<close> rejects, is continued with
  that very error; the principal is the anonymous one and the error is not recorded on
  it.
\<close>

theorem bearer_decode_failure_aborts:
  assumes "\<not> has_named_user req"
    and "authorization req = Some hdr"
    and "split hdr CHR '' '' = [''Bearer'', tok]"
    and "decode_token e self now_ms tok None = Inl err"
  shows "bearer_middleware e self now_ms req =
           Continue (req\<lparr>remote_user := Some buildAnonymousUser, paused := False\<rparr>) (Some err)"
  using assms by (simp add: bearer_middleware_def bearer_next_def Let_def)

theorem bearer_decode_failure_aborts_witness:
  "bearer_middleware sample_env sample_auth 1010000 (sample_request\<lparr>authorization := Some ''Bearer abc''\<rparr>) =
     Continue (sample_request\<lparr>authorization := Some ''Bearer abc'',
                 remote_user := Some buildAnonymousUser, paused := False\<rparr>)
       (Some (HttpError 401 ''invalid token''))"
proof -
  have h1: "\<not> has_named_user (sample_request\<lparr>authorization := Some ''Bearer abc''\<rparr>)"
    by (simp add: has_named_user_def sample_request_def)
  have h2: "authorization (sample_request\<lparr>authorization := Some ''Bearer abc''\<rparr>) = Some ''Bearer abc''"
    by simp
  have h3: "split ''Bearer abc'' CHR '' '' = [''Bearer'', ''abc'']"
    by simp
  have h4: "decode_token sample_env sample_auth 1010000 ''abc'' None = Inl (HttpError 401 ''invalid token'')"
    by (simp add: decode_token_def sample_env_def)
  show ?thesis
    using bearer_decode_failure_aborts [OF h1 h2 h3 h4] by simp
qed

text \<open>
  C9: a request without a named principal whose header is \<open>Bearer\<close> and a token
  that decodes to a payload with \<open>u = carol\<close> and \<open>g = [dev]\<close> is continued without
  error, with the principal \<open>carol\<close> whose groups are \<open>dev\<close> followed by the five
  markers of \<open>authenticatedUser\<close>, and with the token attached to it.
\<close>

theorem bearer_attaches_carol:
  assumes "\<not> has_named_user req"
    and "authorization req = Some hdr"
    and "split hdr CHR '' '' = [''Bearer'', tok]"
    and "decode_token e self now_ms tok None = Inr pl"
    and "tok_u pl = Some ''carol''"
    and "tok_g pl = GArray [''dev'']"
  shows "bearer_middleware e self now_ms req =
           Continue
             (req\<lparr>remote_user :=
                    Some \<lparr> name = Some ''carol'',
                           groups = [''dev'', ''$all'', ''$authenticated'', ''@all'', ''@authenticated'', ''all''],
                           real_groups = GArray [''dev''],
                           error = None,
                           token = Some tok \<rparr>,
                  paused := False\<rparr>)
             None
         \<and> groups (authenticatedUser nm (GArray gs)) =
             gs @ [''$all'', ''$authenticated'', ''@all'', ''@authenticated'', ''all'']"
  using assms by (simp add: bearer_middleware_def bearer_next_def authenticatedUser_def Let_def)

lemma carol_token_eq: "carol_token = ''{u=carol;g=[dev];t=1000}s3cret{u=carol;g=[dev];t=1000}##''"
  unfolding carol_token_def by code_simp

lemma carol_decode: "decode_token sample_env sample_auth 1010000 carol_token None = Inr \<lparr> tok_u = Some ''carol'', tok_g = GArray [''dev''], tok_t = 1000 \<rparr>"
  unfolding carol_token_def by code_simp

theorem bearer_attaches_carol_witness:
  "bearer_middleware sample_env sample_auth 1010000
       (sample_request\<lparr>authorization := Some (''Bearer '' @ carol_token)\<rparr>) =
     Continue
       (sample_request
          \<lparr>authorization := Some (''Bearer '' @ carol_token),
           remote_user :=
             Some \<lparr> name = Some ''carol'',
                    groups = [''dev'', ''$all'', ''$authenticated'', ''@all'', ''@authenticated'', ''all''],
                    real_groups = GArray [''dev''],
                    error = None,
                    token = Some carol_token \<rparr>,
           paused := False\<rparr>)
       None"
proof -
  have h1: "\<not> has_named_user (sample_request\<lparr>authorization := Some (''Bearer '' @ carol_token)\<rparr>)"
    by (simp add: has_named_user_def sample_request_def)
  have h2: "authorization (sample_request\<lparr>authorization := Some (''Bearer '' @ carol_token)\<rparr>)
              = Some (''Bearer '' @ carol_token)"
    by simp
  have h3: "split (''Bearer '' @ carol_token) CHR '' '' = [''Bearer'', carol_token]"
    unfolding carol_token_eq by simp
  have h5: "tok_u \<lparr> tok_u = Some ''carol'', tok_g = GArray [''dev''], tok_t = 1000 \<rparr> = Some ''carol''"
    by simp
  have h6: "tok_g \<lparr> tok_u = Some ''carol'', tok_g = GArray [''dev''], tok_t = 1000 \<rparr> = GArray [''dev'']"
    by simp
  show ?thesis
    using bearer_attaches_carol [OF h1 h2 h3 carol_decode h5 h6] by simp
qed

subsection \<open>Anonymous principals\<close>

lemma foldl_member:
  "foldl (\<lambda>prev curr. if curr \<in> set gs then True else prev) b xs = (b \<or> (\<exists>c \<in> set xs. c \<in> set gs))"
  by (induction xs arbitrary: b) auto



lemma authenticatedUser_marker [simp]: "''$authenticated'' \<in> set (groups (authenticatedUser nm grps))"
  by (simp add: authenticatedUser_def)











subsection \<open>The cipher and its callers\<close>

lemma aes_decrypt_total: "\<exists>plain. aes_decrypt e self buf = Inr plain"
  by (simp add: aes_decrypt_def try_catch_def split: sum.splits)

lemma aes_decrypt_failure:
  "decipher_update e (a_secret self) buf = Inl err \<or> decipher_final e (a_secret self) buf = Inl err
     \<Longrightarrow> aes_decrypt e self buf = Inr []"
  by (auto simp: aes_decrypt_def try_catch_def split: sum.splits)

lemma basic_no_header:
  "\<not> has_named_user req \<Longrightarrow> authorization req = None \<Longrightarrow>
     basic_middleware e self req = Continue (req\<lparr>remote_user := Some buildAnonymousUser, paused := False\<rparr>) None"
  by (simp add: basic_middleware_def basic_next_def Let_def)

lemma basic_empty_blob:
  "\<not> has_named_user req \<Longrightarrow> authorization req = Some hdr \<Longrightarrow> split hdr CHR '' '' = [''Bearer'', blob] \<Longrightarrow>
   aes_decrypt e self (base64_decode e blob) = Inr [] \<Longrightarrow> utf8_decode e [] = [] \<Longrightarrow>
     basic_middleware e self req = Continue (req\<lparr>remote_user := Some buildAnonymousUser, paused := False\<rparr>) None"
  by (simp add: basic_middleware_def basic_next_def Let_def)

lemma cookie_no_cookie:
  "\<not> has_named_user req \<Longrightarrow> cookie_token req = None \<Longrightarrow>
     cookie_middleware e self req = Continue (req\<lparr>remote_user := Some buildAnonymousUser, paused := False\<rparr>) None"
  by (simp add: cookie_middleware_def cookie_next_def Let_def)

lemma cookie_empty_blob:
  "\<not> has_named_user req \<Longrightarrow> cookie_token req = Some blob \<Longrightarrow>
   aes_decrypt e self (base64_decode e blob) = Inr [] \<Longrightarrow> utf8_decode e [] = [] \<Longrightarrow>
     cookie_middleware e self req = Continue (req\<lparr>remote_user := Some buildAnonymousUser, paused := False\<rparr>) None"
  by (simp add: cookie_middleware_def cookie_next_def Let_def)

lemma has_named_user_authorization [simp]:
  "has_named_user (req\<lparr>authorization := h\<rparr>) = has_named_user req"
  by (simp add: has_named_user_def)

lemma has_named_user_cookie [simp]:
  "has_named_user (req\<lparr>cookie_token := h\<rparr>) = has_named_user req"
  by (simp add: has_named_user_def)

text \<open>
  C8: \<open>aes_decrypt\<close> always returns a buffer, and the empty one whenever a step
  of the decipher throws. For its two callers a blob that cannot be deciphered gives
  what a request without the header (or without the cookie) gives: the anonymous
  principal and a continuation without error. (The conversion of the empty buffer to a
  string is assumed to give the empty string.)
\<close>

theorem aes_decrypt_never_raises:
  "(\<exists>plain. aes_decrypt e self buf = Inr plain)
   \<and> (decipher_update e (a_secret self) buf = Inl err \<or> decipher_final e (a_secret self) buf = Inl err
        \<longrightarrow> aes_decrypt e self buf = Inr [])
   \<and> (\<not> has_named_user req \<and> split hdr CHR '' '' = [''Bearer'', blob]
        \<and> (decipher_update e (a_secret self) (base64_decode e blob) = Inl err
             \<or> decipher_final e (a_secret self) (base64_decode e blob) = Inl err)
        \<and> utf8_decode e [] = []
        \<longrightarrow> basic_middleware e self (req\<lparr>authorization := Some hdr\<rparr>)
              = Continue (req\<lparr>authorization := Some hdr, remote_user := Some buildAnonymousUser, paused := False\<rparr>) None
            \<and> basic_middleware e self (req\<lparr>authorization := None\<rparr>)
              = Continue (req\<lparr>authorization := None, remote_user := Some buildAnonymousUser, paused := False\<rparr>) None)
   \<and> (\<not> has_named_user req
        \<and> (decipher_update e (a_secret self) (base64_decode e blob) = Inl err
             \<or> decipher_final e (a_secret self) (base64_decode e blob) = Inl err)
        \<and> utf8_decode e [] = []
        \<longrightarrow> cookie_middleware e self (req\<lparr>cookie_token := Some blob\<rparr>)
              = Continue (req\<lparr>cookie_token := Some blob, remote_user := Some buildAnonymousUser, paused := False\<rparr>) None
            \<and> cookie_middleware e self (req\<lparr>cookie_token := None\<rparr>)
              = Continue (req\<lparr>cookie_token := None, remote_user := Some buildAnonymousUser, paused := False\<rparr>) None)"
proof (intro conjI impI)
  show "\<exists>plain. aes_decrypt e self buf = Inr plain" by (rule aes_decrypt_total)
next
  assume "decipher_update e (a_secret self) buf = Inl err \<or> decipher_final e (a_secret self) buf = Inl err"
  then show "aes_decrypt e self buf = Inr []" by (rule aes_decrypt_failure)
next
  assume a: "\<not> has_named_user req \<and> split hdr CHR '' '' = [''Bearer'', blob]
        \<and> (decipher_update e (a_secret self) (base64_decode e blob) = Inl err
             \<or> decipher_final e (a_secret self) (base64_decode e blob) = Inl err)
        \<and> utf8_decode e [] = []"
  then have d: "aes_decrypt e self (base64_decode e blob) = Inr []"
    using aes_decrypt_failure by blast
  show "basic_middleware e self (req\<lparr>authorization := Some hdr\<rparr>)
          = Continue (req\<lparr>authorization := Some hdr, remote_user := Some buildAnonymousUser, paused := False\<rparr>) None"
    using a d basic_empty_blob [of "req\<lparr>authorization := Some hdr\<rparr>" hdr blob e self] by simp
  show "basic_middleware e self (req\<lparr>authorization := None\<rparr>)
          = Continue (req\<lparr>authorization := None, remote_user := Some buildAnonymousUser, paused := False\<rparr>) None"
    using a basic_no_header [of "req\<lparr>authorization := None\<rparr>" e self] by simp
next
  assume a: "\<not> has_named_user req
        \<and> (decipher_update e (a_secret self) (base64_decode e blob) = Inl err
             \<or> decipher_final e (a_secret self) (base64_decode e blob) = Inl err)
        \<and> utf8_decode e [] = []"
  then have d: "aes_decrypt e self (base64_decode e blob) = Inr []"
    using aes_decrypt_failure by blast
  show "cookie_middleware e self (req\<lparr>cookie_token := Some blob\<rparr>)
          = Continue (req\<lparr>cookie_token := Some blob, remote_user := Some buildAnonymousUser, paused := False\<rparr>) None"
    using a d cookie_empty_blob [of "req\<lparr>cookie_token := Some blob\<rparr>" blob e self] by simp
  show "cookie_middleware e self (req\<lparr>cookie_token := None\<rparr>)
          = Continue (req\<lparr>cookie_token := None, remote_user := Some buildAnonymousUser, paused := False\<rparr>) None"
    using a cookie_no_cookie [of "req\<lparr>cookie_token := None\<rparr>" e self] by simp
qed

theorem aes_decrypt_never_raises_witness:
  "aes_decrypt sample_env sample_auth ''garbage'' = Inr []
   \<and> basic_middleware sample_env sample_auth (sample_request\<lparr>authorization := Some ''Bearer garbage''\<rparr>)
       = Continue (sample_request\<lparr>remote_user := Some buildAnonymousUser, authorization := Some ''Bearer garbage''\<rparr>) None
   \<and> cookie_middleware sample_env sample_auth (sample_request\<lparr>cookie_token := Some ''garbage''\<rparr>)
       = Continue (sample_request\<lparr>remote_user := Some buildAnonymousUser, cookie_token := Some ''garbage''\<rparr>) None"
proof -
  have h1: "\<not> has_named_user sample_request"
    by (simp add: has_named_user_def sample_request_def)
  have h2: "split ''Bearer garbage'' CHR '' '' = [''Bearer'', ''garbage'']"
    by simp
  have h3: "decipher_final sample_env (a_secret sample_auth) (base64_decode sample_env ''garbage'') = Inl (LibError ''bad decrypt'')"
    by (simp add: sample_env_def)
  have h4: "utf8_decode sample_env [] = []"
    by (simp add: sample_env_def)
  have h5: "decipher_final sample_env (a_secret sample_auth) ''garbage'' = Inl (LibError ''bad decrypt'')"
    by (simp add: sample_env_def)
  show ?thesis
    using h1 h2 h3 h4 h5
      aes_decrypt_never_raises [of sample_env sample_auth "''garbage''" "LibError ''bad decrypt''"
        sample_request "''Bearer garbage''" "''garbage''"]
    by (simp add: sample_request_def)
qed

subsection \<open>Expiry of a token\<close>

text \<open>
  C6, as the code has it: for a token that is longer than 32 bytes, whose MAC
  comparison succeeds and whose payload parses, \<open>decode_token\<close> called without an
  expiry fails with \<open>401 token expired\<close> exactly when the distance between the
  payload's \<open>t\<close> and the current second exceeds 86400, and called with an expiry
  \<open>x\<close> other than 0 exactly when the distance exceeds \<open>x\<close>; otherwise it returns the
  payload, in particular one second before the boundary. An expiry of 0 counts as not
  given. The current second is \<open>~~(Date.now()/1000)\<close>, which is the clock's second
  count as long as that is below \<open>2\<^sup>3\<^sup>1\<close>.
\<close>

theorem decode_token_expiry:
  assumes "buf = base64_decode e str"
    and "32 < length buf"
    and "sha512_hex e (drop (length buf - 32) buf)
           = sha512_hex e (hmac_sha256 e (a_secret self) (take (length buf - 32) buf))"
    and "jju_parse e (utf8_decode e (take (length buf - 32) buf)) = Inr pl"
  shows "(decode_token e self now_ms str None = Inl (HttpError 401 ''token expired''))
           = (86400 < \<bar>tok_t pl - now_seconds now_ms\<bar>)
         \<and> (decode_token e self now_ms str None = Inr pl)
           = (\<bar>tok_t pl - now_seconds now_ms\<bar> \<le> 86400)
         \<and> (\<bar>tok_t pl - now_seconds now_ms\<bar> = 86400 - 1
              \<longrightarrow> decode_token e self now_ms str None = Inr pl)
         \<and> (x \<noteq> 0 \<longrightarrow>
              (decode_token e self now_ms str (Some x) = Inl (HttpError 401 ''token expired''))
                = (x < \<bar>tok_t pl - now_seconds now_ms\<bar>)
              \<and> (decode_token e self now_ms str (Some x) = Inr pl)
                = (\<bar>tok_t pl - now_seconds now_ms\<bar> \<le> x)
              \<and> (\<bar>tok_t pl - now_seconds now_ms\<bar> = x - 1
                   \<longrightarrow> decode_token e self now_ms str (Some x) = Inr pl))
         \<and> decode_token e self now_ms str (Some 0) = decode_token e self now_ms str None
         \<and> (0 \<le> now_ms \<and> now_ms < 2 ^ 31 * 1000 \<longrightarrow> now_seconds now_ms = now_ms div 1000)"
proof -
  have wrap: "0 \<le> now_ms \<and> now_ms < 2 ^ 31 * 1000 \<longrightarrow> now_seconds now_ms = now_ms div 1000"
  proof
    assume r: "0 \<le> now_ms \<and> now_ms < 2 ^ 31 * 1000"
    then have p: "0 \<le> now_ms" and q: "now_ms < 2 ^ 31 * 1000"
      by blast+
    have lo: "0 \<le> now_ms div 1000"
      using p by (simp add: pos_imp_zdiv_nonneg_iff)
    have hi: "now_ms div 1000 < 2 ^ 31"
      using q by linarith
    have "(now_ms div 1000 + 2 ^ 31) mod 2 ^ 32 = now_ms div 1000 + 2 ^ 31"
      using lo hi by (intro mod_pos_pos_trivial) simp_all
    with p show "now_seconds now_ms = now_ms div 1000"
      by (simp add: now_seconds_def to_int32_def)
  qed
  show ?thesis
    using assms wrap by (simp add: decode_token_def Let_def expire_or_default_def)
qed

lemma carol_payload:
  "jju_parse sample_env (utf8_decode sample_env (take (length carol_token - 32) carol_token))
     = Inr \<lparr> tok_u = Some ''carol'', tok_g = GArray [''dev''], tok_t = 1000 \<rparr>"
  unfolding carol_token_def by code_simp

lemma carol_length: "32 < length carol_token"
  unfolding carol_token_def by code_simp

lemma carol_mac:
  "sha512_hex sample_env (drop (length carol_token - 32) carol_token)
     = sha512_hex sample_env
         (hmac_sha256 sample_env (a_secret sample_auth) (take (length carol_token - 32) carol_token))"
  unfolding carol_token_def by code_simp

lemma carol_buf: "carol_token = base64_decode sample_env carol_token"
  by (simp add: sample_env_def)

lemma sample_seconds:
  "now_seconds 87399000 = 87399" "now_seconds 87401000 = 87401"
  "now_seconds 4599000 = 4599" "now_seconds 4601000 = 4601" "now_seconds 1011000 = 1011"
  by (simp_all add: now_seconds_def to_int32_def)

theorem decode_token_expiry_witness:
  "decode_token sample_env sample_auth 87399000 carol_token None
     = Inr \<lparr> tok_u = Some ''carol'', tok_g = GArray [''dev''], tok_t = 1000 \<rparr>
   \<and> decode_token sample_env sample_auth 87401000 carol_token None
     = Inl (HttpError 401 ''token expired'')
   \<and> decode_token sample_env sample_auth 4599000 carol_token (Some 3600)
     = Inr \<lparr> tok_u = Some ''carol'', tok_g = GArray [''dev''], tok_t = 1000 \<rparr>
   \<and> decode_token sample_env sample_auth 4601000 carol_token (Some 3600)
     = Inl (HttpError 401 ''token expired'')
   \<and> now_seconds 87399000 = 87399000 div 1000"
  using decode_token_expiry [OF carol_buf carol_length carol_mac carol_payload, of 87399000 3600]
    decode_token_expiry [OF carol_buf carol_length carol_mac carol_payload, of 87401000 3600]
    decode_token_expiry [OF carol_buf carol_length carol_mac carol_payload, of 4599000 3600]
    decode_token_expiry [OF carol_buf carol_length carol_mac carol_payload, of 4601000 3600]
  by (simp add: sample_seconds)

text \<open>
  C6 as stated fails for an expiry of 0: a token whose length and MAC checks pass is
  accepted 11 seconds after it was issued.
\<close>

theorem decode_token_zero_expiry_counterexample:
  "32 < length (base64_decode sample_env carol_token)
   \<and> sha512_hex sample_env (drop (length carol_token - 32) carol_token)
       = sha512_hex sample_env
           (hmac_sha256 sample_env (a_secret sample_auth) (take (length carol_token - 32) carol_token))
   \<and> decode_token sample_env sample_auth 1011000 carol_token (Some 0)
       = Inr \<lparr> tok_u = Some ''carol'', tok_g = GArray [''dev''], tok_t = 1000 \<rparr>
   \<and> \<bar>tok_t \<lparr> tok_u = Some ''carol'', tok_g = GArray [''dev''], tok_t = 1000 \<rparr> - now_seconds 1011000\<bar> = 11
   \<and> (0 :: int) < 11"
proof -
  have "decode_token sample_env sample_auth 1011000 carol_token (Some 0)
       = Inr \<lparr> tok_u = Some ''carol'', tok_g = GArray [''dev''], tok_t = 1000 \<rparr>"
    unfolding carol_token_def by code_simp
  then show ?thesis
    using carol_length carol_mac carol_buf by (simp add: sample_seconds)
qed

subsection \<open>Round trip of a token\<close>

text \<open>
  C3, as the code has it: when the library functions invert each other on the token
  (base64, the parser on the serialised payload), the MAC has 32 bytes and the token is
  decoded within the expiry in force, \<open>decode_token\<close> returns the payload that
  \<open>issue_token\<close> built: its \<open>u\<close> is the principal's name, and its \<open>g\<close> is the
  principal's \<open>real_groups\<close> when that is a non-empty array and absent otherwise.
\<close>

theorem token_round_trip:
  assumes "pl = token_payload issued_ms usr"
    and "data = utf8_encode e (jju_stringify e pl)"
    and "mac = hmac_sha256 e (a_secret self) data"
    and "base64_decode e (base64_encode e (data @ mac)) = data @ mac"
    and "length mac = 32"
    and "data \<noteq> []"
    and "jju_parse e (utf8_decode e data) = Inr pl"
    and "\<bar>now_seconds issued_ms - now_seconds now_ms\<bar> \<le> expire_or_default expire_time"
  shows "decode_token e self now_ms (issue_token e self issued_ms usr) expire_time = Inr pl
         \<and> tok_u pl = name usr
         \<and> tok_g pl = (case real_groups usr of
                          GArray gs \<Rightarrow> if gs = [] then GUndefined else GArray gs
                        | _ \<Rightarrow> GUndefined)"
proof -
  have tok: "issue_token e self issued_ms usr = base64_encode e (data @ mac)"
    using assms(1-3) by (simp add: issue_token_def Let_def)
  have t: "tok_t pl = now_seconds issued_ms"
    using assms(1) by (simp add: token_payload_def)
  have len: "32 < length (data @ mac)"
    using assms(5,6) by (cases data) simp_all
  have split_data: "take (length (data @ mac) - 32) (data @ mac) = data"
    and split_mac: "drop (length (data @ mac) - 32) (data @ mac) = mac"
    using assms(5) by simp_all
  have "decode_token e self now_ms (issue_token e self issued_ms usr) expire_time = Inr pl"
    unfolding tok decode_token_def Let_def assms(4)
    using len split_data split_mac assms(3,7,8) t
    by (simp add: not_le [symmetric])
  moreover have "tok_u pl = name usr"
    using assms(1) by (simp add: token_payload_def)
  moreover have "tok_g pl = (case real_groups usr of
                          GArray gs \<Rightarrow> if gs = [] then GUndefined else GArray gs
                        | _ \<Rightarrow> GUndefined)"
    using assms(1) by (simp add: token_payload_def split: groups_val.splits)
  ultimately show ?thesis by simp
qed

theorem token_round_trip_witness:
  "decode_token sample_env sample_auth 1010000 carol_token None
     = Inr \<lparr> tok_u = Some ''carol'', tok_g = GArray [''dev''], tok_t = 1000 \<rparr>"
proof -
  let ?usr = "authenticatedUser (Some ''carol'') (GArray [''dev''])"
  let ?pl = "\<lparr> tok_u = Some ''carol'', tok_g = GArray [''dev''], tok_t = 1000 \<rparr>"
  let ?data = "''{u=carol;g=[dev];t=1000}''"
  let ?mac = "''s3cret{u=carol;g=[dev];t=1000}##''"
  have h1: "?pl = token_payload 1000000 ?usr" by code_simp
  have h2: "?data = utf8_encode sample_env (jju_stringify sample_env ?pl)" by code_simp
  have h3: "?mac = hmac_sha256 sample_env (a_secret sample_auth) ?data" by code_simp
  have h4: "base64_decode sample_env (base64_encode sample_env (?data @ ?mac)) = ?data @ ?mac"
    by (simp add: sample_env_def)
  have h5: "length ?mac = 32" by simp
  have h6: "?data \<noteq> []" by simp
  have h7: "jju_parse sample_env (utf8_decode sample_env ?data) = Inr ?pl" by code_simp
  have h8: "\<bar>now_seconds 1000000 - now_seconds 1010000\<bar> \<le> expire_or_default None"
    by (simp add: now_seconds_def to_int32_def expire_or_default_def)
  show ?thesis
    using token_round_trip [OF h1 h2 h3 h4 h5 h6 h7 h8] by (simp add: carol_token_def)
qed

text \<open>
  C3 as stated fails for the empty sequence: the decoded payload has no \<open>g\<close>.
\<close>

theorem token_round_trip_empty_groups_counterexample:
  "name (authenticatedUser (Some ''carol'') (GArray [])) = Some ''carol''
   \<and> real_groups (authenticatedUser (Some ''carol'') (GArray [])) = GArray []
   \<and> decode_token sample_env sample_auth 1010000
        (issue_token sample_env sample_auth 1000000 (authenticatedUser (Some ''carol'') (GArray []))) None
       = Inr \<lparr> tok_u = Some ''carol'', tok_g = GUndefined, tok_t = 1000 \<rparr>
   \<and> tok_g \<lparr> tok_u = Some ''carol'', tok_g = GUndefined, tok_t = 1000 \<rparr>
       \<noteq> real_groups (authenticatedUser (Some ''carol'') (GArray []))"
  by code_simp

subsection \<open>Failed authentication in the Basic and the Cookie middleware\<close>

text \<open>
  C5, as the code has it: a request without a named principal whose credentials (from a
  \<open>Basic\<close> header, from a \<open>Bearer\<close> header holding an encrypted blob, or from the
  cookie) are refused by \<open>authenticate\<close> is continued without an error and with the
  anonymous principal. The Basic middleware records the error's message on that
  principal; the Cookie middleware records nothing.
\<close>

theorem failed_authentication_swallowed:
  "(\<not> has_named_user req \<and> authorization req = Some hdr \<and> split hdr CHR '' '' = [''Basic'', blob]
      \<and> utf8_decode e (base64_decode e blob) = credentials
      \<and> 0 \<le> indexOf credentials CHR '':''
      \<and> authenticate self (take (nat (indexOf credentials CHR '':'')) credentials)
                            (drop (nat (indexOf credentials CHR '':'' + 1)) credentials) = Cb_err err
    \<longrightarrow> basic_middleware e self req =
          Continue (req\<lparr>remote_user := Some (buildAnonymousUser\<lparr>error := Some (message err)\<rparr>),
                        paused := False\<rparr>) None)
   \<and> (\<not> has_named_user req \<and> authorization req = Some hdr \<and> split hdr CHR '' '' = [''Bearer'', blob]
      \<and> aes_decrypt e self (base64_decode e blob) = Inr plain
      \<and> utf8_decode e plain = credentials
      \<and> 0 \<le> indexOf credentials CHR '':''
      \<and> authenticate self (take (nat (indexOf credentials CHR '':'')) credentials)
                            (drop (nat (indexOf credentials CHR '':'' + 1)) credentials) = Cb_err err
    \<longrightarrow> basic_middleware e self req =
          Continue (req\<lparr>remote_user := Some (buildAnonymousUser\<lparr>error := Some (message err)\<rparr>),
                        paused := False\<rparr>) None)
   \<and> (\<not> has_named_user req \<and> cookie_token req = Some blob
      \<and> aes_decrypt e self (base64_decode e blob) = Inr plain
      \<and> utf8_decode e plain = credentials
      \<and> 0 \<le> indexOf credentials CHR '':''
      \<and> authenticate self (take (nat (indexOf credentials CHR '':'')) credentials)
                            (drop (nat (indexOf credentials CHR '':'' + 1)) credentials) = Cb_err err
    \<longrightarrow> cookie_middleware e self req =
          Continue (req\<lparr>remote_user := Some buildAnonymousUser, paused := False\<rparr>) None)"
proof (intro conjI impI)
  assume "\<not> has_named_user req \<and> authorization req = Some hdr \<and> split hdr CHR '' '' = [''Basic'', blob]
      \<and> utf8_decode e (base64_decode e blob) = credentials
      \<and> 0 \<le> indexOf credentials CHR '':''
      \<and> authenticate self (take (nat (indexOf credentials CHR '':'')) credentials)
                            (drop (nat (indexOf credentials CHR '':'' + 1)) credentials) = Cb_err err"
  then show "basic_middleware e self req =
          Continue (req\<lparr>remote_user := Some (buildAnonymousUser\<lparr>error := Some (message err)\<rparr>),
                        paused := False\<rparr>) None"
    by (simp add: basic_middleware_def basic_next_def Let_def)
next
  assume a: "\<not> has_named_user req \<and> authorization req = Some hdr \<and> split hdr CHR '' '' = [''Bearer'', blob]
      \<and> aes_decrypt e self (base64_decode e blob) = Inr plain
      \<and> utf8_decode e plain = credentials
      \<and> 0 \<le> indexOf credentials CHR '':''
      \<and> authenticate self (take (nat (indexOf credentials CHR '':'')) credentials)
                            (drop (nat (indexOf credentials CHR '':'' + 1)) credentials) = Cb_err err"
  then have "credentials \<noteq> []" by (cases credentials) auto
  with a show "basic_middleware e self req =
          Continue (req\<lparr>remote_user := Some (buildAnonymousUser\<lparr>error := Some (message err)\<rparr>),
                        paused := False\<rparr>) None"
    by (simp add: basic_middleware_def basic_next_def Let_def)
next
  assume a: "\<not> has_named_user req \<and> cookie_token req = Some blob
      \<and> aes_decrypt e self (base64_decode e blob) = Inr plain
      \<and> utf8_decode e plain = credentials
      \<and> 0 \<le> indexOf credentials CHR '':''
      \<and> authenticate self (take (nat (indexOf credentials CHR '':'')) credentials)
                            (drop (nat (indexOf credentials CHR '':'' + 1)) credentials) = Cb_err err"
  then have "credentials \<noteq> []" by (cases credentials) auto
  with a show "cookie_middleware e self req =
          Continue (req\<lparr>remote_user := Some buildAnonymousUser, paused := False\<rparr>) None"
    by (simp add: cookie_middleware_def cookie_next_def Let_def)
qed

lemma sample_bob_denied:
  "authenticate sample_auth ''bob'' ''secret'' = Cb_err (HttpError 403 ''bad username/password, access denied'')"
  by code_simp

theorem failed_authentication_swallowed_witness:
  "basic_middleware sample_env sample_auth (sample_request\<lparr>authorization := Some ''Basic bob:secret''\<rparr>) =
     Continue (sample_request\<lparr>authorization := Some ''Basic bob:secret'',
        remote_user := Some (buildAnonymousUser\<lparr>error := Some ''bad username/password, access denied''\<rparr>)\<rparr>) None
   \<and> basic_middleware sample_env sample_auth (sample_request\<lparr>authorization := Some ''Bearer !bob:secret''\<rparr>) =
     Continue (sample_request\<lparr>authorization := Some ''Bearer !bob:secret'',
        remote_user := Some (buildAnonymousUser\<lparr>error := Some ''bad username/password, access denied''\<rparr>)\<rparr>) None
   \<and> cookie_middleware sample_env sample_auth (sample_request\<lparr>cookie_token := Some ''!bob:secret''\<rparr>) =
     Continue (sample_request\<lparr>cookie_token := Some ''!bob:secret'', remote_user := Some buildAnonymousUser\<rparr>) None"
proof -
  have n: "\<not> has_named_user sample_request"
    by (simp add: has_named_user_def sample_request_def)
  have d: "aes_decrypt sample_env sample_auth (base64_decode sample_env ''!bob:secret'') = Inr ''bob:secret''"
    by code_simp
  have u: "utf8_decode sample_env (base64_decode sample_env ''bob:secret'') = ''bob:secret''"
    "utf8_decode sample_env ''bob:secret'' = ''bob:secret''"
    by (simp_all add: sample_env_def)
  have i: "indexOf ''bob:secret'' CHR '':'' = 3" by simp
  have a: "authenticate sample_auth (take (nat (indexOf ''bob:secret'' CHR '':'')) ''bob:secret'')
             (drop (nat (indexOf ''bob:secret'' CHR '':'' + 1)) ''bob:secret'')
           = Cb_err (HttpError 403 ''bad username/password, access denied'')"
    unfolding i using sample_bob_denied by simp
  have s1: "split ''Basic bob:secret'' CHR '' '' = [''Basic'', ''bob:secret'']"
    and s2: "split ''Bearer !bob:secret'' CHR '' '' = [''Bearer'', ''!bob:secret'']"
    by simp_all
  show ?thesis
    using n d u i a s1 s2
      failed_authentication_swallowed [where req = "sample_request\<lparr>authorization := Some ''Basic bob:secret''\<rparr>"
        and hdr = "''Basic bob:secret''" and blob = "''bob:secret''" and credentials = "''bob:secret''"
        and e = sample_env and self = sample_auth
        and err = "HttpError 403 ''bad username/password, access denied''" and plain = "''bob:secret''"]
      failed_authentication_swallowed [where req = "sample_request\<lparr>authorization := Some ''Bearer !bob:secret''\<rparr>"
        and hdr = "''Bearer !bob:secret''" and blob = "''!bob:secret''" and credentials = "''bob:secret''"
        and e = sample_env and self = sample_auth
        and err = "HttpError 403 ''bad username/password, access denied''" and plain = "''bob:secret''"]
      failed_authentication_swallowed [where req = "sample_request\<lparr>cookie_token := Some ''!bob:secret''\<rparr>"
        and hdr = "''x''" and blob = "''!bob:secret''" and credentials = "''bob:secret''"
        and e = sample_env and self = sample_auth
        and err = "HttpError 403 ''bad username/password, access denied''" and plain = "''bob:secret''"]
    by (simp add: sample_request_def has_named_user_def)
qed

text \<open>
  C5 as stated fails for the Cookie middleware: after a failed authentication the
  principal it attaches carries no message.
\<close>

theorem cookie_error_not_recorded_counterexample:
  "authenticate sample_auth ''bob'' ''secret'' = Cb_err (HttpError 403 ''bad username/password, access denied'')
   \<and> cookie_middleware sample_env sample_auth (sample_request\<lparr>cookie_token := Some ''!bob:secret''\<rparr>) =
       Continue (sample_request\<lparr>cookie_token := Some ''!bob:secret'', remote_user := Some buildAnonymousUser\<rparr>) None
   \<and> error buildAnonymousUser = None"
  by code_simp

subsection \<open>The walk over the providers\<close>



lemma allow_access_next_prefix:
  "\<forall>q \<in> set pre. allow_access_verdict usr pkg q = No_verdict \<Longrightarrow>
     allow_access_next (pre @ ps) usr pkg = allow_access_next ps usr pkg"
  by (induction pre) (auto simp: allow_access_verdict_def split: option.splits prod.splits if_splits)

lemma allow_publish_next_prefix:
  "\<forall>q \<in> set pre. allow_publish_verdict usr pkg q = No_verdict \<Longrightarrow>
     allow_publish_next (pre @ ps) usr pkg = allow_publish_next ps usr pkg"
  by (induction pre) (auto simp: allow_publish_verdict_def split: option.splits prod.splits if_splits)





text \<open>
  The test of \<open>authenticate\<close> on some answers: an array of ordinary names passes;
  \<open>false\<close>, nothing, the empty array and an array whose text converts to the number
  zero do not.
\<close>

lemma groups_affirmative_examples:
  "groups_affirmative (GArray [''alice''])
   \<and> groups_affirmative (GArray [''dev'', ''ops''])
   \<and> \<not> groups_affirmative GUndefined
   \<and> \<not> groups_affirmative GNull
   \<and> \<not> groups_affirmative GFalse
   \<and> \<not> groups_affirmative (GArray [])
   \<and> \<not> groups_affirmative (GArray [''0''])"
  by code_simp





subsection \<open>The deny-all provider decides access\<close>

lemma allow_action_result:
  "allow_action act prn pkg =
     (if \<exists>g \<in> set (acl act pkg). g \<in> set (groups prn) then (None, True)
      else (Some (HttpError 403
              ((case name prn of
                  None \<Rightarrow> ''unregistered users are''
                | Some n \<Rightarrow> if n = [] then ''unregistered users are'' else ''user '' @ n @ '' is'')
               @ '' not allowed to '' @ action_name act @ '' package '' @ pkg_name pkg)), False))"
  by (cases "name prn") (simp_all add: allow_action_def foldl_member)

text \<open>
  C2, as the code has it: when the chain ends in the deny-all provider and no provider
  before it gives a verdict on the call, \<open>allow_access\<close> succeeds with \<open>true\<close> if some
  group of the package's access list is among the principal's groups, and otherwise
  fails with status 403 and a message that names the principal when its name is a
  non-empty string and speaks of unregistered users when it has no name or an empty
  one. The same holds for \<open>allow_publish\<close> and the publish list.
\<close>

theorem deny_all_decides:
  "(plugins self = pre @ [deny_all_plugin]
      \<and> (\<forall>q \<in> set pre. allow_access_verdict prn (make_package (a_config self) package_name) q = No_verdict)
    \<longrightarrow> allow_access self package_name prn =
          (if \<exists>g \<in> set (access (get_package_spec (a_config self) package_name)). g \<in> set (groups prn)
           then Cb_ok True
           else Cb_err (HttpError 403
                  ((case name prn of
                      None \<Rightarrow> ''unregistered users are''
                    | Some n \<Rightarrow> if n = [] then ''unregistered users are'' else ''user '' @ n @ '' is'')
                   @ '' not allowed to access package '' @ package_name))))
   \<and> (plugins self = pre @ [deny_all_plugin]
      \<and> (\<forall>q \<in> set pre. allow_publish_verdict prn (make_package (a_config self) package_name) q = No_verdict)
    \<longrightarrow> allow_publish self package_name prn =
          (if \<exists>g \<in> set (publish (get_package_spec (a_config self) package_name)). g \<in> set (groups prn)
           then Cb_ok True
           else Cb_err (HttpError 403
                  ((case name prn of
                      None \<Rightarrow> ''unregistered users are''
                    | Some n \<Rightarrow> if n = [] then ''unregistered users are'' else ''user '' @ n @ '' is'')
                   @ '' not allowed to publish package '' @ package_name))))"
proof (intro conjI impI)
  let ?pkg = "make_package (a_config self) package_name"
  assume a: "plugins self = pre @ [deny_all_plugin]
      \<and> (\<forall>q \<in> set pre. allow_access_verdict prn ?pkg q = No_verdict)"
  then have "allow_access self package_name prn = allow_access_next [deny_all_plugin] prn ?pkg"
    by (simp add: allow_access_def allow_access_next_prefix)
  also have "\<dots> = (case allow_action Access prn ?pkg of
                      (Some err, ok) \<Rightarrow> Cb_err err
                    | (None, ok) \<Rightarrow> if ok then Cb_ok ok else
                        Throws (TypeError ''Cannot read property allow_access of undefined''))"
    by (simp add: deny_all_plugin_def split: prod.splits option.splits)
  finally show "allow_access self package_name prn =
          (if \<exists>g \<in> set (access (get_package_spec (a_config self) package_name)). g \<in> set (groups prn)
           then Cb_ok True
           else Cb_err (HttpError 403
                  ((case name prn of
                      None \<Rightarrow> ''unregistered users are''
                    | Some n \<Rightarrow> if n = [] then ''unregistered users are'' else ''user '' @ n @ '' is'')
                   @ '' not allowed to access package '' @ package_name)))"
    by (simp add: allow_action_result make_package_def Let_def)
next
  let ?pkg = "make_package (a_config self) package_name"
  assume a: "plugins self = pre @ [deny_all_plugin]
      \<and> (\<forall>q \<in> set pre. allow_publish_verdict prn ?pkg q = No_verdict)"
  then have "allow_publish self package_name prn = allow_publish_next [deny_all_plugin] prn ?pkg"
    by (simp add: allow_publish_def allow_publish_next_prefix)
  also have "\<dots> = (case allow_action Publish prn ?pkg of
                      (Some err, ok) \<Rightarrow> Cb_err err
                    | (None, ok) \<Rightarrow> if ok then Cb_ok ok else
                        Throws (TypeError ''Cannot read property allow_publish of undefined''))"
    by (simp add: deny_all_plugin_def split: prod.splits option.splits)
  finally show "allow_publish self package_name prn =
          (if \<exists>g \<in> set (publish (get_package_spec (a_config self) package_name)). g \<in> set (groups prn)
           then Cb_ok True
           else Cb_err (HttpError 403
                  ((case name prn of
                      None \<Rightarrow> ''unregistered users are''
                    | Some n \<Rightarrow> if n = [] then ''unregistered users are'' else ''user '' @ n @ '' is'')
                   @ '' not allowed to publish package '' @ package_name)))"
    by (simp add: allow_action_result make_package_def Let_def)
qed

theorem deny_all_decides_witness:
  "allow_access sample_auth ''pkgX'' (authenticatedUser (Some ''carol'') (GArray [''dev''])) = Cb_ok True
   \<and> allow_access sample_auth ''pkgX'' buildAnonymousUser
       = Cb_err (HttpError 403 ''unregistered users are not allowed to access package pkgX'')
   \<and> allow_publish sample_auth ''pkgX'' (authenticatedUser (Some ''carol'') (GArray [''dev'']))
       = Cb_err (HttpError 403 ''user carol is not allowed to publish package pkgX'')"
proof -
  let ?carol = "authenticatedUser (Some ''carol'') (GArray [''dev''])"
  have p: "plugins sample_auth = [static_plugin sample_env sample_config] @ [deny_all_plugin]"
    by (simp add: sample_auth_def Auth_def)
  have a1: "\<forall>q \<in> set [static_plugin sample_env sample_config].
              allow_access_verdict ?carol (make_package (a_config sample_auth) ''pkgX'') q = No_verdict"
    and a2: "\<forall>q \<in> set [static_plugin sample_env sample_config].
              allow_access_verdict buildAnonymousUser (make_package (a_config sample_auth) ''pkgX'') q = No_verdict"
    and a3: "\<forall>q \<in> set [static_plugin sample_env sample_config].
              allow_publish_verdict ?carol (make_package (a_config sample_auth) ''pkgX'') q = No_verdict"
    by (simp_all add: allow_access_verdict_def allow_publish_verdict_def static_plugin_def)
  have s: "get_package_spec (a_config sample_auth) ''pkgX'' = \<lparr> access = [''dev''], publish = [''admin''] \<rparr>"
    by (simp add: sample_auth_def Auth_def sample_config_def)
  show ?thesis
    using p a1 a2 a3
      deny_all_decides [where self = sample_auth and pre = "[static_plugin sample_env sample_config]"
        and prn = ?carol and package_name = "''pkgX''"]
      deny_all_decides [where self = sample_auth and pre = "[static_plugin sample_env sample_config]"
        and prn = buildAnonymousUser and package_name = "''pkgX''"]
    by (simp add: s authenticatedUser_def buildAnonymousUser_def)
qed

text \<open>
  C2 as stated fails for a chain that ends in the deny-all provider but has a provider
  before it that grants access: the anonymous principal may read a package whose
  access list holds none of its groups.
\<close>

theorem deny_all_overruled_counterexample:
  "last (plugins (Auth sample_env sample_config [grant_all_plugin])) = deny_all_plugin
   \<and> access (get_package_spec sample_config ''pkgX'') = [''dev'']
   \<and> ''dev'' \<notin> set (groups buildAnonymousUser)
   \<and> allow_access (Auth sample_env sample_config [grant_all_plugin]) ''pkgX'' buildAnonymousUser = Cb_ok True"
proof -
  have "last (plugins (Auth sample_env sample_config [grant_all_plugin])) = deny_all_plugin"
    by (simp add: Auth_def)
  moreover have "access (get_package_spec sample_config ''pkgX'') = [''dev'']"
    by (simp add: sample_config_def)
  moreover have "''dev'' \<notin> set (groups buildAnonymousUser)"
    by (simp add: buildAnonymousUser_def)
  moreover have "allow_access (Auth sample_env sample_config [grant_all_plugin]) ''pkgX'' buildAnonymousUser = Cb_ok True"
    by code_simp
  ultimately show ?thesis by simp
qed

end
